theory Spec2Isabelle
  imports Main "HOL-Library.AList"
begin

section \<open>JavaScript values\<close>

text \<open>
  The mapping functions of \<^verbatim>\<open>strapi-source-utils.ts\<close> receive parsed JSON typed
  \<^verbatim>\<open>any\<close>. Such a value is modelled by \<open>jsval\<close>. Numbers are restricted to
  integers (Strapi ids are integers) that a double holds exactly and prints in plain
  decimal; an object is the list of its own enumerable properties in
  \<^verbatim>\<open>Object.entries\<close> order.
\<close>

datatype jsval =
    JUndefined
  | JNull
  | JBool bool
  | JNum int
  | JStr string
  | JArr "jsval list"
  | JObj "(string \<times> jsval) list"

text \<open>What the source throws: a runtime \<^verbatim>\<open>TypeError\<close> (property read on
  \<^verbatim>\<open>undefined\<close> or \<^verbatim>\<open>null\<close>, call of a missing method), a
  \<^verbatim>\<open>RangeError\<close> (call stack exhausted) or an explicit
  \<^verbatim>\<open>new Error(message)\<close>.\<close>

datatype error = TypeError | RangeError | Error string

fun show_nat :: "nat \<Rightarrow> string" where
  "show_nat n =
     (if n < 10 then [''0123456789'' ! n]
      else show_nat (n div 10) @ [''0123456789'' ! (n mod 10)])"

declare show_nat.simps [simp del]

definition show_int :: "int \<Rightarrow> string" where
  "show_int i = (if i < 0 then CHR ''-'' # show_nat (nat (- i)) else show_nat (nat i))"

text \<open>\<^verbatim>\<open>pieces.join(',')\<close>\<close>

fun join_comma :: "string list \<Rightarrow> string" where
  "join_comma [] = []"
| "join_comma [p] = p"
| "join_comma (p # q # ps) = p @ '','' @ join_comma (q # ps)"

text \<open>String conversion as a template literal \<^verbatim>\<open>`${v}`\<close> performs it.\<close>

fun js_to_string :: "jsval \<Rightarrow> string" where
  "js_to_string JUndefined = ''undefined''"
| "js_to_string JNull = ''null''"
| "js_to_string (JBool b) = (if b then ''true'' else ''false'')"
| "js_to_string (JNum i) = show_int i"
| "js_to_string (JStr s) = s"
| "js_to_string (JArr xs) =
     join_comma (map (\<lambda>x. if x = JNull \<or> x = JUndefined then [] else js_to_string x) xs)"
| "js_to_string (JObj kvs) = ''[object Object]''"

text \<open>Truthiness, as \<^verbatim>\<open>v ? a : b\<close>, \<^verbatim>\<open>!v\<close> and \<^verbatim>\<open>v && w\<close> test it.\<close>

fun truthy :: "jsval \<Rightarrow> bool" where
  "truthy JUndefined = False"
| "truthy JNull = False"
| "truthy (JBool b) = b"
| "truthy (JNum i) = (i \<noteq> 0)"
| "truthy (JStr s) = (s \<noteq> [])"
| "truthy (JArr xs) = True"
| "truthy (JObj kvs) = True"

text \<open>
  Property read \<^verbatim>\<open>v.p\<close> for the property names the source reads on untyped
  values (\<^verbatim>\<open>data\<close>, \<^verbatim>\<open>id\<close>, \<^verbatim>\<open>draftAndPublish\<close>): a
  \<^verbatim>\<open>TypeError\<close> on \<^verbatim>\<open>undefined\<close> and \<^verbatim>\<open>null\<close>, the own property of an
  object, \<^verbatim>\<open>undefined\<close> otherwise.
\<close>

fun get_prop :: "jsval \<Rightarrow> string \<Rightarrow> error + jsval" where
  "get_prop JUndefined p = Inl TypeError"
| "get_prop JNull p = Inl TypeError"
| "get_prop (JObj kvs) p = (case map_of kvs p of None \<Rightarrow> Inr JUndefined | Some v \<Rightarrow> Inr v)"
| "get_prop v p = Inr JUndefined"

text \<open>\<^verbatim>\<open>Object.entries(v)\<close>.\<close>

fun object_entries :: "jsval \<Rightarrow> error + (string \<times> jsval) list" where
  "object_entries JUndefined = Inl TypeError"
| "object_entries JNull = Inl TypeError"
| "object_entries (JObj kvs) = Inr kvs"
| "object_entries (JArr xs) = Inr (zip (map show_nat [0..<length xs]) xs)"
| "object_entries (JStr s) = Inr (zip (map show_nat [0..<length s]) (map (\<lambda>c. JStr [c]) s))"
| "object_entries v = Inr []"

text \<open>
  Assignment \<^verbatim>\<open>obj[key] = value\<close> on an object that started as \<^verbatim>\<open>{}\<close>: the own
  property is overwritten in place or added at the end. The key \<^verbatim>\<open>__proto__\<close> is
  the exception: the assignment goes to the accessor of \<^verbatim>\<open>Object.prototype\<close>, which
  sets or ignores the prototype and creates no own property. The list keeps the order of
  first assignment, which is the enumeration order for keys that are not array indices.
\<close>

definition assign_property :: "string \<Rightarrow> 'v \<Rightarrow> (string \<times> 'v) list \<Rightarrow> (string \<times> 'v) list" where
  "assign_property k v obj = (if k = ''__proto__'' then obj else AList.update k v obj)"

section \<open>String helpers\<close>

text \<open>\<^verbatim>\<open>s.replace(/-/g, '_')\<close>\<close>

definition replace_hyphens :: "string \<Rightarrow> string" where
  "replace_hyphens s = map (\<lambda>c. if c = CHR ''-'' then CHR ''_'' else c) s"

text \<open>\<^verbatim>\<open>s.split(c)\<close> for a one-character separator: never empty, one piece more
  than there are separators.\<close>

fun split_on :: "char \<Rightarrow> string \<Rightarrow> string list" where
  "split_on c [] = [[]]"
| "split_on c (x # xs) =
     (if x = c then [] # split_on c xs
      else (case split_on c xs of [] \<Rightarrow> [[x]] | p # ps \<Rightarrow> (x # p) # ps))"

text \<open>\<^verbatim>\<open>s.startsWith(p)\<close>\<close>

definition startsWith :: "string \<Rightarrow> string \<Rightarrow> bool" where
  "startsWith s p = (take (length p) s = p)"

section \<open>Id codec\<close>

text \<open>\<^verbatim>\<open>export const ID_SEPARATOR = `#`;\<close>\<close>

definition ID_SEPARATOR_CHAR :: char where
  "ID_SEPARATOR_CHAR = CHR ''#''"

definition ID_SEPARATOR :: string where
  "ID_SEPARATOR = [ID_SEPARATOR_CHAR]"

text \<open>
  The composite id is written inline in the source,
  \<^verbatim>\<open>`${document.type.replace(/-/g, '_')}${ID_SEPARATOR}${document.id}`\<close>, and taken apart
  inline in \<^verbatim>\<open>updateDocument\<close>,
  \<^verbatim>\<open>const [contentType, id] = options.document.id.split(ID_SEPARATOR)\<close>: the first two
  pieces of the split, the second one \<^verbatim>\<open>undefined\<close> when there is no separator.
\<close>

definition encode_id :: "string \<Rightarrow> string \<Rightarrow> string" where
  "encode_id modelName sourceId = modelName @ ID_SEPARATOR @ sourceId"

definition decode_id :: "string \<Rightarrow> string \<times> string option" where
  "decode_id compositeId =
     (case split_on ID_SEPARATOR_CHAR compositeId of
        [] \<Rightarrow> ([], None)
      | [contentType] \<Rightarrow> (contentType, None)
      | contentType # ident # _ \<Rightarrow> (contentType, Some ident))"

text \<open>The decoder in the specification's words: split at the first occurrence of the
  delimiter.\<close>

definition decode_first_spec :: "string \<Rightarrow> string \<times> string option" where
  "decode_first_spec compositeId =
     (let modelName = takeWhile (\<lambda>c. c \<noteq> ID_SEPARATOR_CHAR) compositeId;
          rest = dropWhile (\<lambda>c. c \<noteq> ID_SEPARATOR_CHAR) compositeId
      in (modelName, case rest of [] \<Rightarrow> None | _ # sourceId \<Rightarrow> Some sourceId))"

section \<open>Schema mapping\<close>

text \<open>
  \<^verbatim>\<open>AttributeModel\<close> of the API client, as the parsed JSON object it is at run time:
  the tag and the properties the mapping reads, a missing property being \<open>None\<close>
  (\<^verbatim>\<open>undefined\<close> for \<^verbatim>\<open>default\<close>, which is typed \<^verbatim>\<open>any\<close>).
\<close>

record attribute =
  a_type :: string
  a_required :: "bool option"
  a_repeatable :: "bool option"
  a_default :: jsval
  a_component :: "string option"
  a_relation :: "string option"
  a_target :: "string option"

text \<open>\<^verbatim>\<open>StrapiContentType | StrapiComponent\<close>: \<^verbatim>\<open>options\<close> is typed \<^verbatim>\<open>any\<close>,
  \<^verbatim>\<open>info.pluralName\<close> exists on content types only, \<^verbatim>\<open>attributes\<close> is listed in
  \<^verbatim>\<open>Object.entries\<close> order.\<close>

record strapi_model =
  apiID :: string
  uid :: string
  attributes :: "(string \<times> attribute) list"
  options :: jsval
  info_pluralName :: "string option"

text \<open>\<^verbatim>\<open>StrapiContentTypeSetting\<close>; \<open>settings_mainField\<close> is
  \<^verbatim>\<open>settings?.mainField\<close>.\<close>

record content_type_setting =
  cts_uid :: string
  settings_mainField :: "string option"

text \<open>The \<^verbatim>\<open>items\<close> of a list field (\<^verbatim>\<open>FieldSpecificProps\<close>).\<close>

record field_specific_props =
  fi_type :: string
  fi_models :: "string list option"

text \<open>
  A field of a normalized model (\<^verbatim>\<open>Field\<close> of the host's types). \<open>f_type\<close> is
  optional because a lookup in \<^verbatim>\<open>typeMapping\<close> can miss. The fall-through branch of
  the classifier returns its argument, so a field list can also hold a source attribute
  as it came (\<open>RawAttribute\<close>).
\<close>

record stackbit_field =
  f_type :: "string option"
  f_name :: string
  f_required :: "bool option"
  f_default :: jsval
  f_models :: "string list option"
  f_items :: "field_specific_props option"

datatype field = NormalizedField stackbit_field | RawAttribute attribute

record model_context =
  draftAndPublish :: jsval
  apiEndpoint :: "string option"

record model =
  m_type :: string
  m_name :: string
  m_context :: "model_context option"
  m_labelField :: "string option"
  m_fields :: "field list option"

text \<open>The lookup table \<^verbatim>\<open>typeMapping\<close> (lines 39 to 51).\<close>

definition typeMapping :: "string \<Rightarrow> string option" where
  "typeMapping = map_of
     [(''boolean'', ''boolean''),
      (''integer'', ''number''),
      (''string'', ''string''),
      (''richtext'', ''text''),
      (''text'', ''text''),
      (''datetime'', ''datetime''),
      (''json'', ''json''),
      (''enumeration'', ''string'')]"

text \<open>The tags of the first \<^verbatim>\<open>case\<close> group of the classifier (lines 68 to 76).\<close>

definition scalar_tags :: "string list" where
  "scalar_tags = [''float'', ''boolean'', ''string'', ''richtext'', ''integer'', ''datetime'',
                  ''json'', ''text'', ''enumeration'']"

text \<open>\<^verbatim>\<open>s.replace(/^.*\./, '')\<close>: the greedy match ends at the last dot of the first
  line (\<^verbatim>\<open>.\<close> matches no line terminator; line feed and carriage return are the
  terminators among single bytes).\<close>

definition strip_namespace :: "string \<Rightarrow> string" where
  "strip_namespace s =
     (let line = takeWhile (\<lambda>c. c \<noteq> CHR 0x0A \<and> c \<noteq> CHR 0x0D) s
      in if CHR ''.'' \<in> set line
         then drop (length line - length (takeWhile (\<lambda>c. c \<noteq> CHR ''.'') (rev line))) s
         else s)"

text \<open>\<^verbatim>\<open>attribute.target.split('.')[1].replace(/-/g, '_')\<close>\<close>

definition relation_target :: "attribute \<Rightarrow> error + string" where
  "relation_target a =
     (case a_target a of
        None \<Rightarrow> Inl TypeError
      | Some t \<Rightarrow> (case split_on CHR ''.'' t of
                     _ # p # _ \<Rightarrow> Inr (replace_hyphens p)
                   | _ \<Rightarrow> Inl TypeError))"

text \<open>\<^verbatim>\<open>attribute.component!.replace(/^.*\./, '').replace(/-/g, '_')\<close>\<close>

definition component_target :: "attribute \<Rightarrow> error + string" where
  "component_target a =
     (case a_component a of
        None \<Rightarrow> Inl TypeError
      | Some c \<Rightarrow> Inr (replace_hyphens (strip_namespace c)))"

definition plain_field :: "string option \<Rightarrow> string \<Rightarrow> stackbit_field" where
  "plain_field t n =
     \<lparr>f_type = t, f_name = n, f_required = None, f_default = JUndefined,
      f_models = None, f_items = None\<rparr>"

text \<open>
  The classifier: the callback mapped over \<^verbatim>\<open>Object.entries(model.attributes)\<close>
  (lines 66 to 125). The result is the console output and either the exception thrown or
  the value returned.
\<close>

definition classify_attribute :: "string \<Rightarrow> attribute \<Rightarrow> string list \<times> (error + field)" where
  "classify_attribute attributeName a =
     (if a_type a \<in> set scalar_tags then
        ([], Inr (NormalizedField ((plain_field (typeMapping (a_type a)) attributeName)
                           \<lparr>f_required := Some (a_required a = Some True),
                            f_default := a_default a\<rparr>)))
      else if a_type a = ''relation'' then
        (case relation_target a of
           Inl e \<Rightarrow> ([], Inl e)
         | Inr target \<Rightarrow>
             if a_relation a \<in> {Some ''oneToMany'', Some ''manyToMany''}
             then ([], Inr (NormalizedField ((plain_field (Some ''list'') attributeName)
                     \<lparr>f_items := Some \<lparr>fi_type = ''reference'', fi_models = Some [target]\<rparr>\<rparr>)))
             else ([], Inr (NormalizedField ((plain_field (Some ''reference'') attributeName)
                     \<lparr>f_models := Some [target]\<rparr>))))
      else if a_type a = ''component'' then
        (case component_target a of
           Inl e \<Rightarrow> ([], Inl e)
         | Inr target \<Rightarrow>
             if a_repeatable a = Some True
             then ([], Inr (NormalizedField ((plain_field (Some ''list'') attributeName)
                     \<lparr>f_items := Some \<lparr>fi_type = ''model'', fi_models = Some [target]\<rparr>\<rparr>)))
             else ([], Inr (NormalizedField ((plain_field (Some ''model'') attributeName)
                     \<lparr>f_models := Some [target]\<rparr>))))
      else if a_type a = ''media'' then
        ([], Inr (NormalizedField (plain_field (Some ''file'') attributeName)))
      else
        ([''Unknown attribute type: '' @ a_type a], Inr (RawAttribute a)))"

text \<open>\<^verbatim>\<open>Object.entries(model.attributes).map(...)\<close>: in order, stopping at the first
  exception.\<close>

fun classify_attributes :: "(string \<times> attribute) list \<Rightarrow> string list \<times> (error + field list)" where
  "classify_attributes [] = ([], Inr [])"
| "classify_attributes ((attributeName, a) # rest) =
     (case classify_attribute attributeName a of
        (out, Inl e) \<Rightarrow> (out, Inl e)
      | (out, Inr f) \<Rightarrow>
          (case classify_attributes rest of
             (out', Inl e) \<Rightarrow> (out @ out', Inl e)
           | (out', Inr fs) \<Rightarrow> (out @ out', Inr (f # fs))))"

text \<open>The callback of \<^verbatim>\<open>models.map\<close> in \<^verbatim>\<open>toStackbitModels\<close> (lines 55 to 127);
  the properties of the result are evaluated in the order written.\<close>

definition toStackbitModel ::
  "content_type_setting list \<Rightarrow> strapi_model \<Rightarrow> string list \<times> (error + model)" where
  "toStackbitModel contentTypeSettings m =
     (let contentTypeSetting = find (\<lambda>cts. cts_uid cts = uid m) contentTypeSettings
      in case get_prop (options m) ''draftAndPublish'' of
           Inl e \<Rightarrow> ([], Inl e)
         | Inr dp \<Rightarrow>
             (case classify_attributes (attributes m) of
                (out, Inl e) \<Rightarrow> (out, Inl e)
              | (out, Inr fs) \<Rightarrow>
                  (out, Inr \<lparr>m_type = (if startsWith (uid m) ''api::'' then ''data'' else ''object''),
                             m_name = replace_hyphens (apiID m),
                             m_context = Some \<lparr>draftAndPublish = dp,
                                               apiEndpoint = info_pluralName m\<rparr>,
                             m_labelField = (case contentTypeSetting of
                                               None \<Rightarrow> None
                                             | Some cts \<Rightarrow> settings_mainField cts),
                             m_fields = Some fs\<rparr>)))"

fun toStackbitModels ::
  "strapi_model list \<Rightarrow> content_type_setting list \<Rightarrow> string list \<times> (error + model list)" where
  "toStackbitModels [] contentTypeSettings = ([], Inr [])"
| "toStackbitModels (m # rest) contentTypeSettings =
     (case toStackbitModel contentTypeSettings m of
        (out, Inl e) \<Rightarrow> (out, Inl e)
      | (out, Inr r) \<Rightarrow>
          (case toStackbitModels rest contentTypeSettings of
             (out', Inl e) \<Rightarrow> (out @ out', Inl e)
           | (out', Inr rs) \<Rightarrow> (out @ out', Inr (r # rs))))"

section \<open>Document mapping\<close>

text \<open>
  The host's model cache, read through \<^verbatim>\<open>stackbitCache.getModelByName\<close>, is a
  parameter of the mapping; its argument is optional because the source passes
  \<^verbatim>\<open>models[0]\<close> of a possibly empty list.
\<close>

type_synonym cache = "string option \<Rightarrow> model option"

text \<open>\<^verbatim>\<open>StrapiDocument\<close>; \<^verbatim>\<open>attributes\<close> in \<^verbatim>\<open>Object.entries\<close> order, with
  distinct keys.\<close>

record strapi_document =
  d_id :: int
  d_type :: string
  d_attributes :: "(string \<times> jsval) list"

text \<open>
  \<^verbatim>\<open>DocumentField\<close> as the mapping builds it: a typed value, a reference, a list of items,
  a nested model. The two fall-through branches return their argument, a model field
  (\<open>DFRawField\<close>) or the \<^verbatim>\<open>items\<close> of a list field (\<open>DFListRawItems\<close>).
\<close>

datatype docfield =
    DFValue string jsval
  | DFReference string jsval
  | DFList "docfield list"
  | DFListRawItems field_specific_props
  | DFModel "string option" "(string \<times> docfield) list"
  | DFRawField field

text \<open>The mapped document; the constant properties \<^verbatim>\<open>type: 'document'\<close> and
  \<^verbatim>\<open>context: {}\<close> are left out.\<close>

record document =
  doc_id :: string
  doc_modelName :: string
  doc_status :: string
  doc_manageUrl :: string
  doc_createdAt :: jsval
  doc_updatedAt :: jsval
  doc_fields :: "(string \<times> docfield) list"

fun field_name :: "field \<Rightarrow> string option" where
  "field_name (NormalizedField f) = Some (f_name f)"
| "field_name (RawAttribute a) = None"

fun field_type :: "field \<Rightarrow> string option" where
  "field_type (NormalizedField f) = f_type f"
| "field_type (RawAttribute a) = Some (a_type a)"

fun field_models :: "field \<Rightarrow> string list option" where
  "field_models (NormalizedField f) = f_models f"
| "field_models (RawAttribute a) = None"

fun field_items :: "field \<Rightarrow> field_specific_props option" where
  "field_items (NormalizedField f) = f_items f"
| "field_items (RawAttribute a) = None"

text \<open>\<^verbatim>\<open>models[0]\<close>\<close>

definition first_model :: "string list \<Rightarrow> string option" where
  "first_model ms = (case ms of [] \<Rightarrow> None | m # _ \<Rightarrow> Some m)"

text \<open>The field types of the first \<^verbatim>\<open>case\<close> group of \<^verbatim>\<open>toDocumentField\<close>
  (lines 174 to 189).\<close>

definition value_field_types :: "string list" where
  "value_field_types = [''string'', ''url'', ''slug'', ''text'', ''markdown'', ''html'', ''boolean'',
     ''date'', ''datetime'', ''color'', ''number'', ''enum'', ''file'', ''json'', ''style'', ''richText'']"

text \<open>The item types of the last \<^verbatim>\<open>case\<close> group of \<^verbatim>\<open>toDocumentListFieldItems\<close>
  (lines 267 to 286).\<close>

definition unhandled_item_types :: "string list" where
  "unhandled_item_types = [''string'', ''url'', ''slug'', ''text'', ''markdown'', ''html'', ''number'',
     ''boolean'', ''date'', ''datetime'', ''color'', ''json'', ''richText'', ''file'', ''enum'',
     ''image'', ''object'', ''cross-reference'', ''style'', ''list'']"

text \<open>\<^verbatim>\<open>xs.map(f)\<close> for a callback that can throw: in order, up to the first
  exception.\<close>

fun map_throwing :: "('a \<Rightarrow> error + 'b) \<Rightarrow> 'a list \<Rightarrow> error + 'b list" where
  "map_throwing f [] = Inr []"
| "map_throwing f (x # xs) =
     (case f x of
        Inl e \<Rightarrow> Inl e
      | Inr y \<Rightarrow> (case map_throwing f xs of Inl e \<Rightarrow> Inl e | Inr ys \<Rightarrow> Inr (y # ys)))"

text \<open>
  \<^verbatim>\<open>toDocumentListFieldItems\<close> (lines 237 to 293). The recursive call of
  \<^verbatim>\<open>toFields\<close> is the parameter \<open>fields_of\<close>. The \<^verbatim>\<open>console.error\<close> of the
  unhandled group is not part of the result and is left out.
\<close>

definition toDocumentListFieldItems ::
  "(jsval \<Rightarrow> model option \<Rightarrow> error + (string \<times> docfield) list) \<Rightarrow> cache
   \<Rightarrow> field_specific_props option \<Rightarrow> jsval
   \<Rightarrow> error + (field_specific_props + docfield list)" where
  "toDocumentListFieldItems fields_of getModelByName fieldSpecificProps attributeValue =
     (case fieldSpecificProps of
        None \<Rightarrow> Inl TypeError
      | Some props \<Rightarrow>
          if fi_type props = ''model'' then
            (case attributeValue of
               JArr vs \<Rightarrow>
                 (case map_throwing
                         (\<lambda>v. case fi_models props of
                                 None \<Rightarrow> Inl TypeError
                               | Some ms \<Rightarrow>
                                   (case fields_of v (getModelByName (first_model ms)) of
                                      Inl e \<Rightarrow> Inl e
                                    | Inr flds \<Rightarrow> Inr (DFModel (first_model ms) flds)))
                         vs of
                    Inl e \<Rightarrow> Inl e
                  | Inr items \<Rightarrow> Inr (Inr items))
             | _ \<Rightarrow> Inl TypeError)
          else if fi_type props = ''reference'' then
            (case get_prop attributeValue ''data'' of
               Inl e \<Rightarrow> Inl e
             | Inr (JArr vs) \<Rightarrow>
                 (case map_throwing
                         (\<lambda>v. case fi_models props of
                                 None \<Rightarrow> Inl TypeError
                               | Some ms \<Rightarrow>
                                   (case getModelByName (first_model ms) of
                                      None \<Rightarrow> Inl TypeError
                                    | Some target \<Rightarrow>
                                        (case get_prop v ''id'' of
                                           Inl e \<Rightarrow> Inl e
                                         | Inr ident \<Rightarrow>
                                             Inr (DFReference ''document''
                                                    (JStr (m_name target @ ID_SEPARATOR
                                                             @ js_to_string ident))))))
                         vs of
                    Inl e \<Rightarrow> Inl e
                  | Inr items \<Rightarrow> Inr (Inr items))
             | Inr _ \<Rightarrow> Inl TypeError)
          else if fi_type props \<in> set unhandled_item_types then Inr (Inr [])
          else Inr (Inl props))"

text \<open>\<^verbatim>\<open>toDocumentField\<close> (lines 169 to 235); \<open>None\<close> is the result
  \<^verbatim>\<open>undefined\<close>.\<close>

definition toDocumentField ::
  "(jsval \<Rightarrow> model option \<Rightarrow> error + (string \<times> docfield) list) \<Rightarrow> cache
   \<Rightarrow> field option \<Rightarrow> jsval \<Rightarrow> error + docfield option" where
  "toDocumentField fields_of getModelByName modelField attributeValue =
     (case modelField of
        None \<Rightarrow> Inr None
      | Some mf \<Rightarrow>
          (case field_type mf of
             None \<Rightarrow> Inr (Some (DFRawField mf))
           | Some t \<Rightarrow>
               if t \<in> set value_field_types then Inr (Some (DFValue t attributeValue))
               else if t = ''image'' then
                 Inr (if truthy attributeValue
                      then Some (DFReference ''asset'' attributeValue) else None)
               else if t = ''reference'' then
                 (if truthy attributeValue then
                    (case get_prop attributeValue ''data'' of
                       Inl e \<Rightarrow> Inl e
                     | Inr dat \<Rightarrow>
                         if truthy dat then
                           (case get_prop dat ''id'' of
                              Inl e \<Rightarrow> Inl e
                            | Inr ident \<Rightarrow>
                                Inr (Some (DFReference ''document''
                                  (JStr ((case field_name mf of
                                            None \<Rightarrow> ''undefined'' | Some n \<Rightarrow> n)
                                         @ ID_SEPARATOR @ js_to_string ident)))))
                         else Inr None)
                  else Inr None)
               else if t = ''list'' then
                 (case toDocumentListFieldItems fields_of getModelByName
                         (field_items mf) attributeValue of
                    Inl e \<Rightarrow> Inl e
                  | Inr (Inl props) \<Rightarrow> Inr (Some (DFListRawItems props))
                  | Inr (Inr items) \<Rightarrow> Inr (Some (DFList items)))
               else if t = ''model'' then
                 (case field_models mf of
                    None \<Rightarrow> Inl TypeError
                  | Some ms \<Rightarrow>
                      (case fields_of attributeValue (getModelByName (first_model ms)) of
                         Inl e \<Rightarrow> Inl e
                       | Inr flds \<Rightarrow> Inr (Some (DFModel (first_model ms) flds))))
               else if t = ''object'' \<or> t = ''cross-reference'' then
                 Inl (Error (''field of type '' @ t @ '' not implemented''))
               else Inr (Some (DFRawField mf))))"

text \<open>\<^verbatim>\<open>model.fields?.find((field) => field.name === attributeName)\<close>, on a model
  that may be \<^verbatim>\<open>undefined\<close>.\<close>

definition find_model_field :: "model option \<Rightarrow> string \<Rightarrow> error + field option" where
  "find_model_field model attributeName =
     (case model of
        None \<Rightarrow> Inl TypeError
      | Some m \<Rightarrow>
          (case m_fields m of
             None \<Rightarrow> Inr None
           | Some fs \<Rightarrow> Inr (find (\<lambda>field. field_name field = Some attributeName) fs)))"

text \<open>The \<^verbatim>\<open>reduce\<close> of \<^verbatim>\<open>toFields\<close> (lines 159 to 166) over the entries that
  passed the filter; \<open>field_of\<close> is \<^verbatim>\<open>toDocumentField\<close>, \<open>acc\<close> the
  accumulator \<^verbatim>\<open>attributes\<close>.\<close>

fun reduce_fields ::
  "(field option \<Rightarrow> jsval \<Rightarrow> error + docfield option) \<Rightarrow> model option
   \<Rightarrow> (string \<times> jsval) list \<Rightarrow> (string \<times> docfield) list
   \<Rightarrow> error + (string \<times> docfield) list" where
  "reduce_fields field_of model [] acc = Inr acc"
| "reduce_fields field_of model ((attributeName, attributeValue) # rest) acc =
     (case find_model_field model attributeName of
        Inl e \<Rightarrow> Inl e
      | Inr modelField \<Rightarrow>
          (case field_of modelField attributeValue of
             Inl e \<Rightarrow> Inl e
           | Inr None \<Rightarrow> reduce_fields field_of model rest acc
           | Inr (Some documentField) \<Rightarrow>
               reduce_fields field_of model rest
                 (assign_property attributeName documentField acc)))"

text \<open>
  \<^verbatim>\<open>toFields\<close> (lines 156 to 167). It calls itself through
  \<^verbatim>\<open>toDocumentField\<close> for nested components, as deep as the value and the cached
  models lead it; \<open>stack\<close> is the number of nested calls the call stack still holds,
  and a call beyond it is the \<^verbatim>\<open>RangeError\<close> of the engine.
\<close>

fun toFields :: "cache \<Rightarrow> nat \<Rightarrow> jsval \<Rightarrow> model option \<Rightarrow> error + (string \<times> docfield) list" where
  "toFields getModelByName 0 documentAttributes model = Inl RangeError"
| "toFields getModelByName (Suc stack) documentAttributes model =
     (case object_entries documentAttributes of
        Inl e \<Rightarrow> Inl e
      | Inr entries \<Rightarrow>
          reduce_fields (toDocumentField (toFields getModelByName stack) getModelByName) model
            (filter (\<lambda>(_, v). v \<noteq> JNull) entries) [])"

text \<open>\<^verbatim>\<open>document.attributes.p\<close>\<close>

definition attribute_value :: "(string \<times> jsval) list \<Rightarrow> string \<Rightarrow> jsval" where
  "attribute_value attrs p = (case map_of attrs p of None \<Rightarrow> JUndefined | Some v \<Rightarrow> v)"

text \<open>The status expression (lines 143 to 145) on the model found.\<close>

definition document_status :: "model \<Rightarrow> (string \<times> jsval) list \<Rightarrow> string" where
  "document_status model attrs =
     (if (case m_context model of None \<Rightarrow> False | Some ctx \<Rightarrow> truthy (draftAndPublish ctx))
      then (if truthy (attribute_value attrs ''publishedAt'') then ''published'' else ''added'')
      else ''published'')"

text \<open>The callback of \<^verbatim>\<open>documents.map\<close> in \<^verbatim>\<open>toStackbitDocuments\<close> (lines 134 to
  152). Reading \<^verbatim>\<open>model.context\<close> on a model that the cache does not hold throws.\<close>

definition toStackbitDocument :: "cache \<Rightarrow> nat \<Rightarrow> string \<Rightarrow> strapi_document \<Rightarrow> error + document" where
  "toStackbitDocument getModelByName stack manageUrl d =
     (let modelName = replace_hyphens (d_type d)
      in case getModelByName (Some modelName) of
           None \<Rightarrow> Inl TypeError
         | Some model \<Rightarrow>
             (case toFields getModelByName stack (JObj (d_attributes d)) (Some model) of
                Inl e \<Rightarrow> Inl e
              | Inr flds \<Rightarrow>
                  Inr \<lparr>doc_id = encode_id (replace_hyphens (d_type d)) (show_int (d_id d)),
                       doc_modelName = modelName,
                       doc_status = document_status model (d_attributes d),
                       doc_manageUrl = manageUrl @ ''/collectionType/api::'' @ d_type d @ ''.''
                                         @ d_type d @ ''/'' @ show_int (d_id d),
                       doc_createdAt = attribute_value (d_attributes d) ''createdAt'',
                       doc_updatedAt = attribute_value (d_attributes d) ''updatedAt'',
                       doc_fields = flds\<rparr>))"

definition toStackbitDocuments ::
  "cache \<Rightarrow> nat \<Rightarrow> strapi_document list \<Rightarrow> string \<Rightarrow> error + document list" where
  "toStackbitDocuments getModelByName stack documents manageUrl =
     map_throwing (toStackbitDocument getModelByName stack manageUrl) documents"

section \<open>Write path\<close>

text \<open>\<^verbatim>\<open>UpdateOperationField\<close>: the tag, and the \<^verbatim>\<open>value\<close> or \<^verbatim>\<open>refId\<close> that
  the conversion reads (\<^verbatim>\<open>undefined\<close> when missing).\<close>

record update_operation_field =
  uof_type :: string
  uof_value :: jsval
  uof_refId :: jsval

text \<open>A value of the write payload; the fall-through branch of the conversion returns
  the operation field itself.\<close>

datatype payload_value = Value jsval | RawOperationField update_operation_field

text \<open>\<^verbatim>\<open>UpdateOperation\<close>: \<^verbatim>\<open>set\<close> with its field and path, \<^verbatim>\<open>unset\<close> with
  its path and model field, and any other \<^verbatim>\<open>opType\<close>. A path is the list of its
  segments as property keys.\<close>

datatype update_operation =
    OpSet update_operation_field "string list"
  | OpUnset "string list" field
  | OpOther string

text \<open>What \<^verbatim>\<open>stackbitUpdatesToStrapiFields\<close> returns: the payload, or the model field
  of an \<^verbatim>\<open>unset\<close> whose type falls through the switch.\<close>

datatype update_result = Fields "(string \<times> payload_value) list" | ReturnedModelField field

text \<open>\<^verbatim>\<open>fieldPath[0]\<close> as a property key.\<close>

definition path_key :: "string list \<Rightarrow> string" where
  "path_key fieldPath = (case fieldPath of [] \<Rightarrow> ''undefined'' | k # _ \<Rightarrow> k)"

text \<open>The \<^verbatim>\<open>case\<close> groups of the \<^verbatim>\<open>unset\<close> switch (lines 340 to 357 and 360 to
  363) and the throwing group of the conversion (lines 397 to 401).\<close>

definition unset_cleared_types :: "string list" where
  "unset_cleared_types = [''string'', ''url'', ''slug'', ''text'', ''markdown'', ''html'', ''boolean'',
     ''date'', ''datetime'', ''color'', ''number'', ''enum'', ''file'', ''json'', ''style'', ''richText'',
     ''image'', ''reference'']"

definition unset_throwing_types :: "string list" where
  "unset_throwing_types = [''object'', ''model'', ''cross-reference'', ''list'']"

definition convert_throwing_types :: "string list" where
  "convert_throwing_types = [''image'', ''object'', ''model'', ''cross-reference'', ''list'']"

text \<open>\<^verbatim>\<open>convertUpdateOperationFieldToStrapiDocumentField\<close> (lines 376 to 407); its first
  group lists the same types as the first group of \<^verbatim>\<open>toDocumentField\<close>.\<close>

definition convertUpdateOperationFieldToStrapiDocumentField ::
  "update_operation_field \<Rightarrow> error + payload_value" where
  "convertUpdateOperationFieldToStrapiDocumentField updateOperationField =
     (if uof_type updateOperationField \<in> set value_field_types
      then Inr (Value (uof_value updateOperationField))
      else if uof_type updateOperationField = ''reference''
      then Inr (Value (uof_refId updateOperationField))
      else if uof_type updateOperationField \<in> set convert_throwing_types
      then Inl (Error (''updating field of type '' @ uof_type updateOperationField
                         @ '' not implemented''))
      else Inr (RawOperationField updateOperationField))"

text \<open>The loop of \<^verbatim>\<open>stackbitUpdatesToStrapiFields\<close> (lines 333 to 373) on the payload
  built so far.\<close>

fun update_loop ::
  "update_operation list \<Rightarrow> (string \<times> payload_value) list \<Rightarrow> error + update_result" where
  "update_loop [] flds = Inr (Fields flds)"
| "update_loop (OpSet fld fieldPath # rest) flds =
     (case convertUpdateOperationFieldToStrapiDocumentField fld of
        Inl e \<Rightarrow> Inl e
      | Inr v \<Rightarrow> update_loop rest (assign_property (path_key fieldPath) v flds))"
| "update_loop (OpUnset fieldPath modelField # rest) flds =
     (case field_type modelField of
        None \<Rightarrow> Inr (ReturnedModelField modelField)
      | Some t \<Rightarrow>
          if t \<in> set unset_cleared_types
          then update_loop rest (assign_property (path_key fieldPath) (Value JUndefined) flds)
          else if t \<in> set unset_throwing_types
          then Inl (Error (''updating field of type '' @ t @ '' not implemented''))
          else Inr (ReturnedModelField modelField))"
| "update_loop (OpOther opType # rest) flds =
     Inl (Error ([CHR 0x27] @ opType @ [CHR 0x27] @ '' operation not implemented''))"

definition stackbitUpdatesToStrapiFields :: "update_operation list \<Rightarrow> error + update_result" where
  "stackbitUpdatesToStrapiFields updateOperations = update_loop updateOperations []"

text \<open>The key an operation assigns to, if it assigns.\<close>

definition op_key :: "update_operation \<Rightarrow> string option" where
  "op_key operation =
     (case operation of
        OpSet _ fieldPath \<Rightarrow> Some (path_key fieldPath)
      | OpUnset fieldPath _ \<Rightarrow> Some (path_key fieldPath)
      | OpOther _ \<Rightarrow> None)"

section \<open>Example inputs\<close>

text \<open>A small schema: articles with a title, a subtitle, an author and tags, under
  draft and publish; tags without it.\<close>

definition article_model :: model where
  "article_model =
     \<lparr>m_type = ''data'', m_name = ''article'',
      m_context = Some \<lparr>draftAndPublish = JBool True, apiEndpoint = Some ''articles''\<rparr>,
      m_labelField = Some ''title'',
      m_fields = Some
        [NormalizedField (plain_field (Some ''string'') ''title''),
         NormalizedField (plain_field (Some ''text'') ''subtitle''),
         NormalizedField ((plain_field (Some ''reference'') ''author'')\<lparr>f_models := Some [''user'']\<rparr>),
         NormalizedField ((plain_field (Some ''list'') ''tags'')
                  \<lparr>f_items := Some \<lparr>fi_type = ''reference'', fi_models = Some [''tag'']\<rparr>\<rparr>)]\<rparr>"

definition tag_model :: model where
  "tag_model =
     \<lparr>m_type = ''data'', m_name = ''tag'',
      m_context = Some \<lparr>draftAndPublish = JBool False, apiEndpoint = Some ''tags''\<rparr>,
      m_labelField = None,
      m_fields = Some [NormalizedField (plain_field (Some ''string'') ''label'')]\<rparr>"

definition example_cache :: cache where
  "example_cache modelName =
     (if modelName = Some ''article'' then Some article_model
      else if modelName = Some ''tag'' then Some tag_model
      else None)"

definition article_document :: strapi_document where
  "article_document =
     \<lparr>d_id = 1, d_type = ''article'',
      d_attributes =
        [(''title'', JStr ''Hello''),
         (''subtitle'', JUndefined),
         (''publishedAt'', JNull),
         (''views'', JNum 3),
         (''author'', JObj [(''data'', JObj [(''id'', JNum 7)])]),
         (''tags'', JObj [(''data'', JArr [JObj [(''id'', JNum 3)], JObj [(''id'', JNum 7)]])])]\<rparr>"

definition tag_document :: strapi_document where
  "tag_document = \<lparr>d_id = 3, d_type = ''tag'', d_attributes = [(''label'', JStr ''news'')]\<rparr>"

definition ghost_document :: strapi_document where
  "ghost_document = \<lparr>d_id = 2, d_type = ''ghost'', d_attributes = [(''title'', JStr ''Boo'')]\<rparr>"

definition published_document :: strapi_document where
  "published_document =
     \<lparr>d_id = 5, d_type = ''article'',
      d_attributes = [(''publishedAt'', JStr ''2024-05-01T10:00:00.000Z'')]\<rparr>"

definition scalar_attribute :: "string \<Rightarrow> attribute" where
  "scalar_attribute tag =
     \<lparr>a_type = tag, a_required = Some True, a_repeatable = None, a_default = JUndefined,
      a_component = None, a_relation = None, a_target = None\<rparr>"

definition account_type :: strapi_model where
  "account_type =
     \<lparr>apiID = ''account'', uid = ''api::account.account'',
      attributes = [(''login'', scalar_attribute ''string''),
                    (''secret'', scalar_attribute ''password''),
                    (''age'', scalar_attribute ''integer'')],
      options = JObj [(''draftAndPublish'', JBool False)],
      info_pluralName = Some ''accounts''\<rparr>"

definition plain_type :: "string \<Rightarrow> string \<Rightarrow> strapi_model" where
  "plain_type ident name =
     \<lparr>apiID = name, uid = ident, attributes = [],
      options = JObj [(''draftAndPublish'', JBool False)], info_pluralName = None\<rparr>"

section \<open>Properties of the id codec\<close>

lemma split_on_not_Nil: "split_on c s \<noteq> []"
  by (induction s) (auto split: list.splits)

lemma split_on_no_sep: "c \<notin> set s \<Longrightarrow> split_on c s = [s]"
  by (induction s) auto

lemma split_on_append_sep:
  "c \<notin> set p \<Longrightarrow> split_on c (p @ c # s) = p # split_on c s"
  by (induction p) auto

text \<open>
  Claim C2, as the source has it. The encoded id is the concatenation of the model name,
  the separator and the source id, and for a name and an id that do not contain the
  separator decoding gives back exactly the pair. The decoder splits at every separator
  and keeps the first two pieces: whatever follows a second separator is dropped, and an
  id without separator has no second piece.
\<close>

theorem decode_encode_roundtrip:
  assumes "ID_SEPARATOR_CHAR \<notin> set m" and "ID_SEPARATOR_CHAR \<notin> set i"
  shows "encode_id m i = m @ ''#'' @ i
         \<and> decode_id (encode_id m i) = (m, Some i)
         \<and> decode_id (encode_id m i @ ID_SEPARATOR @ rest) = (m, Some i)
         \<and> decode_id m = (m, None)"
proof -
  have s: "split_on ID_SEPARATOR_CHAR (m @ ID_SEPARATOR_CHAR # i) = [m, i]"
    using assms by (simp add: split_on_append_sep split_on_no_sep)
  have t: "split_on ID_SEPARATOR_CHAR (m @ ID_SEPARATOR_CHAR # i @ ID_SEPARATOR_CHAR # rest)
             = m # i # split_on ID_SEPARATOR_CHAR rest"
    using assms split_on_append_sep [of ID_SEPARATOR_CHAR i rest]
    by (simp add: split_on_append_sep)
  have r: "decode_id (encode_id m i) = (m, Some i)"
    by (simp add: decode_id_def encode_id_def ID_SEPARATOR_def s)
  have d: "decode_id (encode_id m i @ ID_SEPARATOR @ rest) = (m, Some i)"
    by (simp add: decode_id_def encode_id_def ID_SEPARATOR_def t)
  have n: "decode_id m = (m, None)"
    using assms(1) by (simp add: decode_id_def split_on_no_sep)
  show ?thesis
    using r d n by (simp add: encode_id_def ID_SEPARATOR_def ID_SEPARATOR_CHAR_def)
qed

theorem decode_encode_roundtrip_witness:
  "ID_SEPARATOR_CHAR \<notin> set ''blog_post'' \<and> ID_SEPARATOR_CHAR \<notin> set ''42''
   \<and> encode_id ''blog_post'' ''42'' = ''blog_post#42''
   \<and> decode_id ''blog_post#42'' = (''blog_post'', Some ''42'')
   \<and> decode_id ''blog_post#42#draft'' = (''blog_post'', Some ''42'')
   \<and> decode_id ''blog_post'' = (''blog_post'', None)"
  using decode_encode_roundtrip [of "''blog_post''" "''42''" "''draft''"]
  by (simp add: ID_SEPARATOR_CHAR_def ID_SEPARATOR_def encode_id_def)

text \<open>The claim as written fails in its last clause: the decoder of the source is not
  the split at the first occurrence of the separator.\<close>

theorem decode_not_first_occurrence_counterexample:
  "decode_id ''a#b#c'' = (''a'', Some ''b'')
   \<and> decode_first_spec ''a#b#c'' = (''a'', Some ''b#c'')
   \<and> decode_id ''a#b#c'' \<noteq> decode_first_spec ''a#b#c''"
  by (simp add: decode_id_def decode_first_spec_def ID_SEPARATOR_CHAR_def)

section \<open>Properties of the schema mapping\<close>

lemma classify_attributes_append:
  "classify_attributes (xs @ ys) =
     (case classify_attributes xs of
        (out, Inl e) \<Rightarrow> (out, Inl e)
      | (out, Inr fs) \<Rightarrow>
          (case classify_attributes ys of
             (out', Inl e) \<Rightarrow> (out @ out', Inl e)
           | (out', Inr fs') \<Rightarrow> (out @ out', Inr (fs @ fs'))))"
  by (induction xs) (auto split: prod.splits sum.splits)

text \<open>Eight of the nine tags of the scalar group are keys of the lookup table.\<close>

lemma scalar_tags_in_table:
  assumes "a_type a \<in> set scalar_tags" and "a_type a \<noteq> ''float''"
  shows "\<exists>t. typeMapping (a_type a) = Some t \<and>
             classify_attribute n a =
               ([], Inr (NormalizedField \<lparr>f_type = Some t, f_name = n,
                                f_required = Some (a_required a = Some True),
                                f_default = a_default a, f_models = None, f_items = None\<rparr>))"
  using assms
  by (auto simp add: classify_attribute_def scalar_tags_def typeMapping_def plain_field_def)

text \<open>
  Claim C3. A float attribute is handled by the scalar branch of the classifier, but the
  lookup table has no entry for \<^verbatim>\<open>float\<close>: the field returned has no type
  (\<^verbatim>\<open>undefined\<close>), while \<^verbatim>\<open>required\<close> (as a boolean) and \<^verbatim>\<open>default\<close>
  are carried over.
\<close>

theorem float_attribute_has_no_type:
  "typeMapping ''float'' = None
   \<and> ''float'' \<in> set scalar_tags
   \<and> classify_attribute n (a\<lparr>a_type := ''float''\<rparr>) =
       ([], Inr (NormalizedField \<lparr>f_type = None, f_name = n,
                        f_required = Some (a_required a = Some True),
                        f_default = a_default a, f_models = None, f_items = None\<rparr>))"
  by (simp add: classify_attribute_def scalar_tags_def typeMapping_def plain_field_def)

text \<open>
  Claim C4, as the source has it. An attribute whose tag is outside the vocabulary makes
  the classifier print one diagnostic and return the attribute itself, without throwing:
  the field list of the model keeps an entry at the attribute's position, which is the
  source attribute as it came, and the attributes before and after it are mapped as
  they are without it.
\<close>

theorem unknown_tag_kept_as_raw_attribute:
  assumes "a_type a \<notin> set scalar_tags"
    and "a_type a \<notin> {''relation'', ''component'', ''media''}"
    and "attributes m = pre @ (n, a) # post"
    and "classify_attributes pre = (out1, Inr fs1)"
    and "classify_attributes post = (out2, Inr fs2)"
    and "get_prop (options m) ''draftAndPublish'' = Inr dp"
  shows "classify_attribute n a = ([''Unknown attribute type: '' @ a_type a], Inr (RawAttribute a))
         \<and> (\<exists>r. toStackbitModel settings m
                   = (out1 @ [''Unknown attribute type: '' @ a_type a] @ out2, Inr r)
                 \<and> m_fields r = Some (fs1 @ RawAttribute a # fs2))"
proof -
  have c: "classify_attribute n a
             = ([''Unknown attribute type: '' @ a_type a], Inr (RawAttribute a))"
    using assms(1) assms(2) by (simp add: classify_attribute_def)
  have "classify_attributes (pre @ (n, a) # post)
          = (out1 @ [''Unknown attribute type: '' @ a_type a] @ out2,
             Inr (fs1 @ RawAttribute a # fs2))"
    using assms(4) assms(5) c by (simp add: classify_attributes_append)
  then show ?thesis
    using c assms(3) assms(6) by (simp add: toStackbitModel_def)
qed

theorem unknown_tag_kept_as_raw_attribute_witness:
  "toStackbitModel [] account_type
     = ([''Unknown attribute type: password''],
        Inr \<lparr>m_type = ''data'', m_name = ''account'',
             m_context = Some \<lparr>draftAndPublish = JBool False,
                               apiEndpoint = Some ''accounts''\<rparr>,
             m_labelField = None,
             m_fields = Some
               [NormalizedField \<lparr>f_type = Some ''string'', f_name = ''login'', f_required = Some True,
                       f_default = JUndefined, f_models = None, f_items = None\<rparr>,
                RawAttribute (scalar_attribute ''password''),
                NormalizedField \<lparr>f_type = Some ''number'', f_name = ''age'', f_required = Some True,
                       f_default = JUndefined, f_models = None, f_items = None\<rparr>]\<rparr>)"
proof -
  let ?login = "NormalizedField \<lparr>f_type = Some ''string'', f_name = ''login'', f_required = Some True,
                       f_default = JUndefined, f_models = None, f_items = None\<rparr>"
  let ?age = "NormalizedField \<lparr>f_type = Some ''number'', f_name = ''age'', f_required = Some True,
                     f_default = JUndefined, f_models = None, f_items = None\<rparr>"
  have h1: "a_type (scalar_attribute ''password'') \<notin> set scalar_tags"
    by (simp add: scalar_attribute_def scalar_tags_def)
  have h2: "a_type (scalar_attribute ''password'') \<notin> {''relation'', ''component'', ''media''}"
    by (simp add: scalar_attribute_def)
  have h3: "attributes account_type
              = [(''login'', scalar_attribute ''string'')]
                @ (''secret'', scalar_attribute ''password'')
                # [(''age'', scalar_attribute ''integer'')]"
    by (simp add: account_type_def)
  have h4: "classify_attributes [(''login'', scalar_attribute ''string'')] = ([], Inr [?login])"
    by code_simp
  have h5: "classify_attributes [(''age'', scalar_attribute ''integer'')] = ([], Inr [?age])"
    by code_simp
  have h6: "get_prop (options account_type) ''draftAndPublish'' = Inr (JBool False)"
    by (simp add: account_type_def)
  obtain r where r: "toStackbitModel [] account_type
                       = ([] @ [''Unknown attribute type: ''
                                  @ a_type (scalar_attribute ''password'')] @ [], Inr r)"
    and f: "m_fields r = Some ([?login] @ RawAttribute (scalar_attribute ''password'') # [?age])"
    using unknown_tag_kept_as_raw_attribute [OF h1 h2 h3 h4 h5 h6, of "[]"] by blast
  have e: "toStackbitModel [] account_type
             = ([''Unknown attribute type: password''],
                Inr \<lparr>m_type = ''data'', m_name = ''account'',
                     m_context = Some \<lparr>draftAndPublish = JBool False,
                                       apiEndpoint = Some ''accounts''\<rparr>,
                     m_labelField = None,
                     m_fields = Some
                       [?login, RawAttribute (scalar_attribute ''password''), ?age]\<rparr>)"
    by code_simp
  from r f e show ?thesis by simp
qed

text \<open>The claim as written fails: the attribute is not dropped from the field list.\<close>

theorem unknown_tag_not_dropped_counterexample:
  "toStackbitModels [account_type] []
     = ([''Unknown attribute type: password''],
        Inr [\<lparr>m_type = ''data'', m_name = ''account'',
              m_context = Some \<lparr>draftAndPublish = JBool False,
                                apiEndpoint = Some ''accounts''\<rparr>,
              m_labelField = None,
              m_fields = Some
                [NormalizedField \<lparr>f_type = Some ''string'', f_name = ''login'', f_required = Some True,
                        f_default = JUndefined, f_models = None, f_items = None\<rparr>,
                 RawAttribute \<lparr>a_type = ''password'', a_required = Some True,
                               a_repeatable = None, a_default = JUndefined,
                               a_component = None, a_relation = None, a_target = None\<rparr>,
                 NormalizedField \<lparr>f_type = Some ''number'', f_name = ''age'', f_required = Some True,
                        f_default = JUndefined, f_models = None, f_items = None\<rparr>]\<rparr>])"
  by code_simp

lemma replace_hyphens_inj:
  "CHR ''_'' \<notin> set s \<Longrightarrow> CHR ''_'' \<notin> set t \<Longrightarrow>
   replace_hyphens s = replace_hyphens t \<Longrightarrow> s = t"
proof (induction s arbitrary: t)
  case Nil
  then show ?case by (simp add: replace_hyphens_def)
next
  case (Cons x xs)
  then show ?case by (cases t) (auto simp: replace_hyphens_def split: if_splits)
qed

lemma toStackbitModel_name:
  "toStackbitModel settings m = (out, Inr r) \<Longrightarrow> m_name r = replace_hyphens (apiID m)"
  by (auto simp: toStackbitModel_def split: sum.splits prod.splits)

text \<open>
  Claim C9, as the source has it. The normalized name is computed from the apiID alone:
  two mapped models have the same name exactly when their apiIDs agree once hyphens are
  replaced by underscores, whatever their uids, and for apiIDs without underscores the
  names are equal only if the apiIDs are.
\<close>

theorem model_names_distinct_by_apiID:
  assumes "toStackbitModel settings1 m1 = (out1, Inr r1)"
    and "toStackbitModel settings2 m2 = (out2, Inr r2)"
  shows "(m_name r1 = m_name r2) = (replace_hyphens (apiID m1) = replace_hyphens (apiID m2))
         \<and> (CHR ''_'' \<notin> set (apiID m1) \<and> CHR ''_'' \<notin> set (apiID m2) \<and> apiID m1 \<noteq> apiID m2
              \<longrightarrow> m_name r1 \<noteq> m_name r2)"
  using toStackbitModel_name [OF assms(1)] toStackbitModel_name [OF assms(2)]
        replace_hyphens_inj [of "apiID m1" "apiID m2"]
  by auto

theorem model_names_distinct_by_apiID_witness:
  "m_name \<lparr>m_type = ''data'', m_name = ''blog_post'',
           m_context = Some \<lparr>draftAndPublish = JBool False, apiEndpoint = None\<rparr>,
           m_labelField = None, m_fields = Some []\<rparr>
   \<noteq> m_name \<lparr>m_type = ''data'', m_name = ''blog_page'',
              m_context = Some \<lparr>draftAndPublish = JBool False, apiEndpoint = None\<rparr>,
              m_labelField = None, m_fields = Some []\<rparr>"
proof -
  let ?r1 = "\<lparr>m_type = ''data'', m_name = ''blog_post'',
              m_context = Some \<lparr>draftAndPublish = JBool False, apiEndpoint = None\<rparr>,
              m_labelField = None, m_fields = Some []\<rparr>"
  let ?r2 = "\<lparr>m_type = ''data'', m_name = ''blog_page'',
              m_context = Some \<lparr>draftAndPublish = JBool False, apiEndpoint = None\<rparr>,
              m_labelField = None, m_fields = Some []\<rparr>"
  have h1: "toStackbitModel [] (plain_type ''api::blog-post.blog-post'' ''blog-post'')
              = ([], Inr ?r1)"
    by code_simp
  have h2: "toStackbitModel [] (plain_type ''api::blog-page.blog-page'' ''blog-page'')
              = ([], Inr ?r2)"
    by code_simp
  have h3: "CHR ''_'' \<notin> set (apiID (plain_type ''api::blog-post.blog-post'' ''blog-post''))
            \<and> CHR ''_'' \<notin> set (apiID (plain_type ''api::blog-page.blog-page'' ''blog-page''))
            \<and> apiID (plain_type ''api::blog-post.blog-post'' ''blog-post'')
                \<noteq> apiID (plain_type ''api::blog-page.blog-page'' ''blog-page'')"
    by (simp add: plain_type_def)
  from model_names_distinct_by_apiID [OF h1 h2] h3 show ?thesis by blast
qed

text \<open>The claim as written fails: distinct uids do not give distinct names, neither when
  two apiIDs differ by a hyphen against an underscore, nor when a content type and a
  component have the same apiID.\<close>

theorem model_names_collapse_counterexample:
  "uid (plain_type ''api::blog-post.blog-post'' ''blog-post'')
     \<noteq> uid (plain_type ''api::blog_post.blog_post'' ''blog_post'')
   \<and> uid (plain_type ''api::seo.seo'' ''seo'') \<noteq> uid (plain_type ''shared.seo'' ''seo'')
   \<and> toStackbitModels
        [plain_type ''api::blog-post.blog-post'' ''blog-post'',
         plain_type ''api::blog_post.blog_post'' ''blog_post'',
         plain_type ''api::seo.seo'' ''seo'',
         plain_type ''shared.seo'' ''seo''] []
      = ([],
         Inr [\<lparr>m_type = ''data'', m_name = ''blog_post'',
               m_context = Some \<lparr>draftAndPublish = JBool False, apiEndpoint = None\<rparr>,
               m_labelField = None, m_fields = Some []\<rparr>,
              \<lparr>m_type = ''data'', m_name = ''blog_post'',
               m_context = Some \<lparr>draftAndPublish = JBool False, apiEndpoint = None\<rparr>,
               m_labelField = None, m_fields = Some []\<rparr>,
              \<lparr>m_type = ''data'', m_name = ''seo'',
               m_context = Some \<lparr>draftAndPublish = JBool False, apiEndpoint = None\<rparr>,
               m_labelField = None, m_fields = Some []\<rparr>,
              \<lparr>m_type = ''object'', m_name = ''seo'',
               m_context = Some \<lparr>draftAndPublish = JBool False, apiEndpoint = None\<rparr>,
               m_labelField = None, m_fields = Some []\<rparr>])"
  by code_simp

section \<open>Properties of the document mapping\<close>

lemma map_throwing_Inr_iff:
  "map_throwing f xs = Inr ys \<longleftrightarrow> list_all2 (\<lambda>x y. f x = Inr y) xs ys"
proof (induction xs arbitrary: ys)
  case Nil
  then show ?case by auto
next
  case (Cons x xs)
  show ?case
    by (cases ys) (auto simp: Cons.IH [symmetric] split: sum.splits)
qed

lemma map_throwing_append:
  "map_throwing f (xs @ ys) =
     (case map_throwing f xs of
        Inl e \<Rightarrow> Inl e
      | Inr us \<Rightarrow> (case map_throwing f ys of Inl e \<Rightarrow> Inl e | Inr vs \<Rightarrow> Inr (us @ vs)))"
  by (induction xs) (auto split: sum.splits)

lemma missing_model_throws:
  "getModelByName (Some (replace_hyphens (d_type d))) = None \<Longrightarrow>
   toStackbitDocument getModelByName stack manageUrl d = Inl TypeError"
  by (simp add: toStackbitDocument_def)

lemma documents_mapped_in_order:
  assumes "toStackbitDocuments c n docs url = Inr ds"
  shows "length ds = length docs"
    and "i < length docs \<Longrightarrow> toStackbitDocument c n url (docs ! i) = Inr (ds ! i)"
    and "i < length docs \<Longrightarrow> c (Some (replace_hyphens (d_type (docs ! i)))) \<noteq> None"
proof -
  from assms have l: "list_all2 (\<lambda>x y. toStackbitDocument c n url x = Inr y) docs ds"
    by (simp add: toStackbitDocuments_def map_throwing_Inr_iff)
  then show "length ds = length docs" by (simp add: list_all2_lengthD)
  show s: "toStackbitDocument c n url (docs ! i) = Inr (ds ! i)" if "i < length docs"
    using l that by (rule list_all2_nthD)
  show "c (Some (replace_hyphens (d_type (docs ! i)))) \<noteq> None" if "i < length docs"
    using s [OF that] missing_model_throws [of c "docs ! i" n url] by auto
qed

lemma missing_model_aborts_batch:
  assumes "docs = pre @ d # post" and "toStackbitDocuments c n pre url = Inr ds"
    and "c (Some (replace_hyphens (d_type d))) = None"
  shows "toStackbitDocuments c n docs url = Inl TypeError"
  using assms by (simp add: toStackbitDocuments_def map_throwing_append missing_model_throws)

text \<open>
  Claim C1, as the source has it. The documents are mapped one by one, in order: when
  the call returns, its result lists for each document that document's own mapping, and
  every model was found in the cache. A document whose model the cache does not hold
  makes the call throw a \<^verbatim>\<open>TypeError\<close> at that document (when the documents before
  it map), and the exception ends the whole call: no document of the batch is returned.
\<close>

theorem documents_batch_all_or_nothing:
  "(\<forall>ds. toStackbitDocuments c n docs url = Inr ds \<longrightarrow>
       length ds = length docs \<and>
       (\<forall>i<length docs. toStackbitDocument c n url (docs ! i) = Inr (ds ! i) \<and>
                        c (Some (replace_hyphens (d_type (docs ! i)))) \<noteq> None))
   \<and> (\<forall>pre d post ds. docs = pre @ d # post \<longrightarrow>
         toStackbitDocuments c n pre url = Inr ds \<longrightarrow>
         c (Some (replace_hyphens (d_type d))) = None \<longrightarrow>
         toStackbitDocuments c n docs url = Inl TypeError)"
  using documents_mapped_in_order [of c n docs url]
        missing_model_aborts_batch [of docs _ _ _ c n url]
  by blast

theorem documents_batch_all_or_nothing_witness:
  "toStackbitDocument example_cache 1 ''http://cms'' tag_document
     = Inr \<lparr>doc_id = ''tag#3'', doc_modelName = ''tag'', doc_status = ''published'',
            doc_manageUrl = ''http://cms/collectionType/api::tag.tag/3'',
            doc_createdAt = JUndefined, doc_updatedAt = JUndefined,
            doc_fields = [(''label'', DFValue ''string'' (JStr ''news''))]\<rparr>
   \<and> example_cache (Some (replace_hyphens (d_type tag_document))) \<noteq> None
   \<and> toStackbitDocuments example_cache 1 [tag_document, ghost_document] ''http://cms''
       = Inl TypeError"
proof -
  let ?mapped = "\<lparr>doc_id = ''tag#3'', doc_modelName = ''tag'', doc_status = ''published'',
                  doc_manageUrl = ''http://cms/collectionType/api::tag.tag/3'',
                  doc_createdAt = JUndefined, doc_updatedAt = JUndefined,
                  doc_fields = [(''label'', DFValue ''string'' (JStr ''news''))]\<rparr>"
  have ok: "toStackbitDocuments example_cache 1 [tag_document] ''http://cms'' = Inr [?mapped]"
    by code_simp
  have miss: "example_cache (Some (replace_hyphens (d_type ghost_document))) = None"
    by code_simp
  have one: "toStackbitDocument example_cache 1 ''http://cms'' ([tag_document] ! 0)
               = Inr ([?mapped] ! 0)
             \<and> example_cache (Some (replace_hyphens (d_type ([tag_document] ! 0)))) \<noteq> None"
    using documents_batch_all_or_nothing [of example_cache 1 "[tag_document]" "''http://cms''"] ok
    by simp
  have two: "toStackbitDocuments example_cache 1 [tag_document, ghost_document] ''http://cms''
               = Inl TypeError"
    using documents_batch_all_or_nothing
            [of example_cache 1 "[tag_document, ghost_document]" "''http://cms''"] ok miss
    by (metis append_Cons append_Nil)
  from one two show ?thesis by simp
qed

text \<open>The claim as written fails: a document of an unknown model yields no error value of
  its own, and the document before it, which maps alone, is not returned either.\<close>

theorem missing_model_aborts_batch_counterexample:
  "example_cache (Some (replace_hyphens (d_type ghost_document))) = None
   \<and> toStackbitDocuments example_cache 1 [tag_document] ''http://cms''
       = Inr [\<lparr>doc_id = ''tag#3'', doc_modelName = ''tag'', doc_status = ''published'',
               doc_manageUrl = ''http://cms/collectionType/api::tag.tag/3'',
               doc_createdAt = JUndefined, doc_updatedAt = JUndefined,
               doc_fields = [(''label'', DFValue ''string'' (JStr ''news''))]\<rparr>]
   \<and> toStackbitDocuments example_cache 1 [tag_document, ghost_document] ''http://cms''
       = Inl TypeError"
  by code_simp

lemma status_of_mapped_document:
  assumes "toStackbitDocument c n url d = Inr doc"
    and "c (Some (replace_hyphens (d_type d))) = Some m"
  shows "doc_status doc = document_status m (d_attributes d)"
  using assms by (auto simp: toStackbitDocument_def Let_def split: sum.splits)

text \<open>
  Claim C5. For a document whose model the cache holds: when the model's draftAndPublish
  is false the status is \<^verbatim>\<open>published\<close> whatever the publish timestamp, absent
  and \<^verbatim>\<open>null\<close> included. When it is true the status is \<^verbatim>\<open>added\<close> if
  \<^verbatim>\<open>publishedAt\<close> is absent (missing or \<^verbatim>\<open>undefined\<close>) or \<^verbatim>\<open>null\<close> and
  \<^verbatim>\<open>published\<close> if it is a timestamp, that is a non-empty string; so on these
  values \<^verbatim>\<open>added\<close> is the status exactly when the timestamp is null or absent.
\<close>

theorem status_by_draft_and_publish:
  assumes "toStackbitDocument c n url d = Inr doc"
    and "c (Some (replace_hyphens (d_type d))) = Some m"
    and "m_context m = Some ctx"
  shows "(draftAndPublish ctx = JBool False \<longrightarrow> doc_status doc = ''published'')
       \<and> (draftAndPublish ctx = JBool True \<longrightarrow>
            (map_of (d_attributes d) ''publishedAt'' \<in> {None, Some JNull, Some JUndefined}
               \<longrightarrow> doc_status doc = ''added'')
          \<and> (\<forall>s. map_of (d_attributes d) ''publishedAt'' = Some (JStr s) \<longrightarrow> s \<noteq> []
               \<longrightarrow> doc_status doc = ''published'')
          \<and> (map_of (d_attributes d) ''publishedAt'' \<in> {None, Some JNull, Some JUndefined}
               \<or> (\<exists>s. s \<noteq> [] \<and> map_of (d_attributes d) ''publishedAt'' = Some (JStr s))
               \<longrightarrow> (doc_status doc = ''added'')
                     = (map_of (d_attributes d) ''publishedAt''
                          \<in> {None, Some JNull, Some JUndefined})))"
  using status_of_mapped_document [OF assms(1) assms(2)] assms(3)
  by (auto simp: document_status_def attribute_value_def)

theorem status_by_draft_and_publish_witness:
  "toStackbitDocument example_cache 1 ''http://cms'' tag_document
     = Inr \<lparr>doc_id = ''tag#3'', doc_modelName = ''tag'', doc_status = ''published'',
            doc_manageUrl = ''http://cms/collectionType/api::tag.tag/3'',
            doc_createdAt = JUndefined, doc_updatedAt = JUndefined,
            doc_fields = [(''label'', DFValue ''string'' (JStr ''news''))]\<rparr>
   \<and> toStackbitDocument example_cache 1 ''http://cms'' published_document
       = Inr \<lparr>doc_id = ''article#5'', doc_modelName = ''article'',
              doc_status = ''published'',
              doc_manageUrl = ''http://cms/collectionType/api::article.article/5'',
              doc_createdAt = JUndefined, doc_updatedAt = JUndefined,
              doc_fields = []\<rparr>
   \<and> toStackbitDocument example_cache 1 ''http://cms'' article_document
       = Inr \<lparr>doc_id = ''article#1'', doc_modelName = ''article'', doc_status = ''added'',
              doc_manageUrl = ''http://cms/collectionType/api::article.article/1'',
              doc_createdAt = JUndefined, doc_updatedAt = JUndefined,
              doc_fields =
                [(''title'', DFValue ''string'' (JStr ''Hello'')),
                 (''subtitle'', DFValue ''text'' JUndefined),
                 (''author'', DFReference ''document'' (JStr ''author#7'')),
                 (''tags'', DFList [DFReference ''document'' (JStr ''tag#3''),
                                    DFReference ''document'' (JStr ''tag#7'')])]\<rparr>"
proof -
  let ?tag = "\<lparr>doc_id = ''tag#3'', doc_modelName = ''tag'', doc_status = ''published'',
               doc_manageUrl = ''http://cms/collectionType/api::tag.tag/3'',
               doc_createdAt = JUndefined, doc_updatedAt = JUndefined,
               doc_fields = [(''label'', DFValue ''string'' (JStr ''news''))]\<rparr>"
  let ?art = "\<lparr>doc_id = ''article#5'', doc_modelName = ''article'',
               doc_status = ''published'',
               doc_manageUrl = ''http://cms/collectionType/api::article.article/5'',
               doc_createdAt = JUndefined, doc_updatedAt = JUndefined,
               doc_fields = []\<rparr>"
  let ?draft = "\<lparr>doc_id = ''article#1'', doc_modelName = ''article'', doc_status = ''added'',
                 doc_manageUrl = ''http://cms/collectionType/api::article.article/1'',
                 doc_createdAt = JUndefined, doc_updatedAt = JUndefined,
                 doc_fields =
                   [(''title'', DFValue ''string'' (JStr ''Hello'')),
                    (''subtitle'', DFValue ''text'' JUndefined),
                    (''author'', DFReference ''document'' (JStr ''author#7'')),
                    (''tags'', DFList [DFReference ''document'' (JStr ''tag#3''),
                                       DFReference ''document'' (JStr ''tag#7'')])]\<rparr>"
  have t1: "toStackbitDocument example_cache 1 ''http://cms'' tag_document = Inr ?tag"
    by code_simp
  have t2: "example_cache (Some (replace_hyphens (d_type tag_document))) = Some tag_model"
    by code_simp
  have t3: "m_context tag_model
              = Some \<lparr>draftAndPublish = JBool False, apiEndpoint = Some ''tags''\<rparr>"
    by (simp add: tag_model_def)
  have a1: "toStackbitDocument example_cache 1 ''http://cms'' published_document = Inr ?art"
    by code_simp
  have a2: "example_cache (Some (replace_hyphens (d_type published_document)))
              = Some article_model"
    by code_simp
  have a3: "m_context article_model
              = Some \<lparr>draftAndPublish = JBool True, apiEndpoint = Some ''articles''\<rparr>"
    by (simp add: article_model_def)
  have a4: "map_of (d_attributes published_document) ''publishedAt''
              = Some (JStr ''2024-05-01T10:00:00.000Z'')"
    by (simp add: published_document_def)
  have d1: "toStackbitDocument example_cache 1 ''http://cms'' article_document = Inr ?draft"
    by code_simp
  have d2: "example_cache (Some (replace_hyphens (d_type article_document)))
              = Some article_model"
    by code_simp
  have d4: "map_of (d_attributes article_document) ''publishedAt'' = Some JNull"
    by (simp add: article_document_def)
  have "doc_status ?tag = ''published''"
    using status_by_draft_and_publish [OF t1 t2 t3] by simp
  moreover have "doc_status ?art = ''published''"
    using status_by_draft_and_publish [OF a1 a2 a3] a4 by simp
  moreover have "doc_status ?draft = ''added''"
    using status_by_draft_and_publish [OF d1 d2 a3] d4 by simp
  ultimately show ?thesis using t1 a1 d1 by simp
qed




lemma toDocumentField_undefined_field:
  "toDocumentField fields_of c None v = Inr None"
  by (simp add: toDocumentField_def)

lemma toDocumentField_value_type:
  "field_type mf = Some t \<Longrightarrow> t \<in> set value_field_types \<Longrightarrow>
   toDocumentField fields_of c (Some mf) v = Inr (Some (DFValue t v))"
  by (simp add: toDocumentField_def)

lemma reduce_fields_skip_unmatched:
  assumes "find_model_field model k = Inr None" and "\<And>v. field_of None v = Inr None"
  shows "reduce_fields field_of model (filter (\<lambda>(a, _). a \<noteq> k) es) acc
         = reduce_fields field_of model es acc"
  using assms
  by (induction es arbitrary: acc) (auto split: sum.splits option.splits)

lemma reduce_fields_other_key:
  "reduce_fields field_of model es acc = Inr fs \<Longrightarrow> k \<notin> fst ` set es \<Longrightarrow>
   map_of fs k = map_of acc k"
proof (induction es arbitrary: acc)
  case Nil
  then show ?case by simp
next
  case (Cons e es)
  obtain a v where e: "e = (a, v)" by (cases e)
  from Cons.prems e show ?case
    by (auto split: sum.splits option.splits dest!: Cons.IH
             simp: update_conv' assign_property_def)
qed

lemma reduce_fields_entry:
  assumes "reduce_fields field_of model es acc = Inr fs"
    and "distinct (map fst es)" and "(k, v) \<in> set es"
    and "find_model_field model k = Inr mf" and "field_of mf v = Inr (Some df)"
    and "k \<noteq> ''__proto__''"
  shows "map_of fs k = Some df"
  using assms
proof (induction es arbitrary: acc)
  case Nil
  then show ?case by simp
next
  case (Cons e es)
  obtain a w where e: "e = (a, w)" by (cases e)
  show ?case
  proof (cases "a = k")
    case True
    with Cons.prems e have w: "w = v" and notin: "k \<notin> fst ` set es"
      by (auto simp: image_iff)
    from Cons.prems e True w
    have "reduce_fields field_of model es (AList.update k df acc) = Inr fs"
      by (simp add: assign_property_def)
    from reduce_fields_other_key [OF this notin] show ?thesis
      by (simp add: update_conv')
  next
    case False
    with Cons.prems e have in_rest: "(k, v) \<in> set es" and d: "distinct (map fst es)"
      by auto
    from Cons.prems(1) e obtain acc' where "reduce_fields field_of model es acc' = Inr fs"
      by (auto split: sum.splits option.splits)
    from Cons.IH [OF this d in_rest Cons.prems(4) Cons.prems(5) Cons.prems(6)]
    show ?thesis .
  qed
qed

lemma filter_drop_null_key:
  assumes "\<And>v. (k, v) \<in> set attrs \<Longrightarrow> v = JNull"
  shows "filter (\<lambda>(_, v). v \<noteq> JNull) (filter (\<lambda>(a, _). a \<noteq> k) attrs)
         = filter (\<lambda>(_, v). v \<noteq> JNull) attrs"
  using assms by (induction attrs) auto

lemma filter_commute_key:
  "filter (\<lambda>(_, v). v \<noteq> JNull) (filter (\<lambda>(a, _). a \<noteq> k) attrs)
   = filter (\<lambda>(a, _). a \<noteq> (k::string)) (filter (\<lambda>(_, v::jsval). v \<noteq> JNull) attrs)"
  by (induction attrs) auto

lemma toFields_skip:
  assumes "\<And>v. (k, v) \<in> set attrs \<Longrightarrow> v = JNull \<or> find_model_field model k = Inr None"
  shows "toFields c n (JObj (filter (\<lambda>(a, _). a \<noteq> k) attrs)) model
         = toFields c n (JObj attrs) model"
proof (cases n)
  case 0
  then show ?thesis by simp
next
  case (Suc m)
  show ?thesis
  proof (cases "find_model_field model k = Inr None")
    case True
    then show ?thesis
      using Suc
      by (simp add: filter_commute_key reduce_fields_skip_unmatched
                    toDocumentField_undefined_field del: filter_filter)
  next
    case False
    with assms have "\<And>v. (k, v) \<in> set attrs \<Longrightarrow> v = JNull" by blast
    then show ?thesis using Suc by (simp add: filter_drop_null_key del: filter_filter)
  qed
qed

lemma toFields_no_entry:
  assumes "toFields c n (JObj attrs) model = Inr fs"
    and "\<And>v. (k, v) \<in> set attrs \<Longrightarrow> v = JNull \<or> find_model_field model k = Inr None"
  shows "map_of fs k = None"
proof -
  from assms(2) have "toFields c n (JObj (filter (\<lambda>(a, _). a \<noteq> k) attrs)) model = Inr fs"
    using assms(1) by (simp add: toFields_skip)
  then obtain m where r: "reduce_fields (toDocumentField (toFields c m) c) model
      (filter (\<lambda>(_, v). v \<noteq> JNull) (filter (\<lambda>(a, _). a \<noteq> k) attrs)) [] = Inr fs"
    by (cases n) (auto simp del: filter_filter)
  have "k \<notin> fst ` set (filter (\<lambda>(_, v). v \<noteq> JNull) (filter (\<lambda>(a, _). a \<noteq> k) attrs))"
    by auto
  with reduce_fields_other_key [OF r this] show ?thesis by simp
qed

lemma fields_of_mapped_document:
  assumes "toStackbitDocument c n url d = Inr doc"
  shows "toFields c n (JObj (d_attributes d)) (c (Some (replace_hyphens (d_type d))))
           = Inr (doc_fields doc)"
  using assms
  by (auto simp: toStackbitDocument_def Let_def split: option.splits sum.splits)

text \<open>
  Claim C7. An attribute of a document whose value is \<^verbatim>\<open>null\<close>, or whose name is
  the name of no field of the document's model, leaves no entry under its name in the
  fields of the mapped document; and it is skipped silently: the field mapping of the
  document, its exceptions included, is the one of the document without that attribute.
\<close>

theorem null_or_unmatched_attribute_skipped:
  assumes "(k, v) \<in> set (d_attributes d)" and "distinct (map fst (d_attributes d))"
    and "v = JNull \<or> find_model_field (c (Some (replace_hyphens (d_type d)))) k = Inr None"
  shows "(\<forall>doc. toStackbitDocument c n url d = Inr doc \<longrightarrow> map_of (doc_fields doc) k = None)
         \<and> toFields c n (JObj (d_attributes d)) (c (Some (replace_hyphens (d_type d))))
           = toFields c n (JObj (filter (\<lambda>(a, _). a \<noteq> k) (d_attributes d)))
               (c (Some (replace_hyphens (d_type d))))"
proof -
  let ?model = "c (Some (replace_hyphens (d_type d)))"
  have only: "w = JNull \<or> find_model_field ?model k = Inr None"
    if "(k, w) \<in> set (d_attributes d)" for w
  proof -
    from assms(1) assms(2) that have "w = v"
      by (meson eq_key_imp_eq_value)
    with assms(3) show ?thesis by simp
  qed
  have "map_of (doc_fields doc) k = None" if "toStackbitDocument c n url d = Inr doc" for doc
    using toFields_no_entry [OF fields_of_mapped_document [OF that]] only by blast
  moreover have "toFields c n (JObj (d_attributes d)) ?model
                   = toFields c n (JObj (filter (\<lambda>(a, _). a \<noteq> k) (d_attributes d))) ?model"
    using toFields_skip [of k "d_attributes d" ?model c n] only by simp
  ultimately show ?thesis by blast
qed

theorem null_or_unmatched_attribute_skipped_witness:
  "map_of [(''title'', DFValue ''string'' (JStr ''Hello'')),
           (''subtitle'', DFValue ''text'' JUndefined),
           (''author'', DFReference ''document'' (JStr ''author#7'')),
           (''tags'', DFList [DFReference ''document'' (JStr ''tag#3''),
                              DFReference ''document'' (JStr ''tag#7'')])] ''publishedAt'' = None
   \<and> map_of [(''title'', DFValue ''string'' (JStr ''Hello'')),
             (''subtitle'', DFValue ''text'' JUndefined),
             (''author'', DFReference ''document'' (JStr ''author#7'')),
             (''tags'', DFList [DFReference ''document'' (JStr ''tag#3''),
                                DFReference ''document'' (JStr ''tag#7'')])] ''views'' = None
   \<and> toStackbitDocument example_cache 1 ''http://cms'' article_document
       = Inr \<lparr>doc_id = ''article#1'', doc_modelName = ''article'', doc_status = ''added'',
              doc_manageUrl = ''http://cms/collectionType/api::article.article/1'',
              doc_createdAt = JUndefined, doc_updatedAt = JUndefined,
              doc_fields =
                [(''title'', DFValue ''string'' (JStr ''Hello'')),
                 (''subtitle'', DFValue ''text'' JUndefined),
                 (''author'', DFReference ''document'' (JStr ''author#7'')),
                 (''tags'', DFList [DFReference ''document'' (JStr ''tag#3''),
                                    DFReference ''document'' (JStr ''tag#7'')])]\<rparr>"
proof -
  let ?fields = "[(''title'', DFValue ''string'' (JStr ''Hello'')),
                  (''subtitle'', DFValue ''text'' JUndefined),
                  (''author'', DFReference ''document'' (JStr ''author#7'')),
                  (''tags'', DFList [DFReference ''document'' (JStr ''tag#3''),
                                     DFReference ''document'' (JStr ''tag#7'')])]"
  let ?doc = "\<lparr>doc_id = ''article#1'', doc_modelName = ''article'', doc_status = ''added'',
               doc_manageUrl = ''http://cms/collectionType/api::article.article/1'',
               doc_createdAt = JUndefined, doc_updatedAt = JUndefined,
               doc_fields = ?fields\<rparr>"
  have m: "toStackbitDocument example_cache 1 ''http://cms'' article_document = Inr ?doc"
    by code_simp
  have d: "distinct (map fst (d_attributes article_document))"
    by code_simp
  have p: "(''publishedAt'', JNull) \<in> set (d_attributes article_document)"
    by (simp add: article_document_def)
  have w: "(''views'', JNum 3) \<in> set (d_attributes article_document)"
    by (simp add: article_document_def)
  have u: "find_model_field (example_cache (Some (replace_hyphens (d_type article_document))))
             ''views'' = Inr None"
    by code_simp
  have "map_of (doc_fields ?doc) ''publishedAt'' = None"
    using null_or_unmatched_attribute_skipped
            [OF p d, of example_cache 1 "''http://cms''"] m
    by blast
  moreover have "map_of (doc_fields ?doc) ''views'' = None"
    using null_or_unmatched_attribute_skipped
            [OF w d, of example_cache 1 "''http://cms''"] u m
    by blast
  ultimately show ?thesis using m by simp
qed

text \<open>The key \<^verbatim>\<open>__proto__\<close> is the one name under which no entry can appear.\<close>

lemma proto_attribute_gives_no_entry:
  "toFields c n (JObj attrs) model = Inr fs \<Longrightarrow> map_of fs ''__proto__'' = None"
proof -
  have "reduce_fields field_of model es acc = Inr fs \<Longrightarrow>
        map_of fs ''__proto__'' = map_of acc ''__proto__''" for field_of es acc
  proof (induction es arbitrary: acc)
    case Nil
    then show ?case by simp
  next
    case (Cons e es)
    obtain a v where e: "e = (a, v)" by (cases e)
    from Cons.prems e show ?case
      by (auto split: sum.splits option.splits dest!: Cons.IH
               simp: update_conv' assign_property_def)
  qed
  then show "toFields c n (JObj attrs) model = Inr fs \<Longrightarrow> map_of fs ''__proto__'' = None"
    by (cases n) fastforce+
qed

text \<open>
  Claim C10. The filter of \<^verbatim>\<open>toFields\<close> compares with \<^verbatim>\<open>null\<close> only. An attribute
  whose value is \<^verbatim>\<open>undefined\<close> and whose name, other than \<^verbatim>\<open>__proto__\<close>, is the
  name of a model field of a value type gets an entry under its name, of that type, with
  the value \<^verbatim>\<open>undefined\<close>; alone in a document it gives exactly that entry, where
  \<^verbatim>\<open>null\<close> gives none.
\<close>

theorem undefined_attribute_kept:
  assumes "(k, JUndefined) \<in> set attrs" and "distinct (map fst attrs)"
    and "find_model_field model k = Inr (Some mf)"
    and "field_type mf = Some t" and "t \<in> set value_field_types"
    and "k \<noteq> ''__proto__''"
  shows "(\<forall>fs. toFields c n (JObj attrs) model = Inr fs \<longrightarrow>
            map_of fs k = Some (DFValue t JUndefined))
         \<and> toFields c (Suc n) (JObj [(k, JUndefined)]) model = Inr [(k, DFValue t JUndefined)]
         \<and> toFields c (Suc n) (JObj [(k, JNull)]) model = Inr []"
proof -
  have "map_of fs k = Some (DFValue t JUndefined)"
    if h: "toFields c n (JObj attrs) model = Inr fs" for fs
  proof -
    from h obtain m where r: "reduce_fields (toDocumentField (toFields c m) c) model
        (filter (\<lambda>(_, v). v \<noteq> JNull) attrs) [] = Inr fs"
      by (cases n) auto
    have d: "distinct (map fst (filter (\<lambda>(_, v). v \<noteq> JNull) attrs))"
      using assms(2) by (simp add: distinct_map_filter)
    have i: "(k, JUndefined) \<in> set (filter (\<lambda>(_, v). v \<noteq> JNull) attrs)"
      using assms(1) by simp
    have f: "toDocumentField (toFields c m) c (Some mf) JUndefined
               = Inr (Some (DFValue t JUndefined))"
      by (rule toDocumentField_value_type [OF assms(4) assms(5)])
    show ?thesis
      by (rule reduce_fields_entry [OF r d i assms(3) f assms(6)])
  qed
  moreover have "toFields c (Suc n) (JObj [(k, JUndefined)]) model
                   = Inr [(k, DFValue t JUndefined)]"
    using assms(3) assms(6)
    by (simp add: toDocumentField_value_type [OF assms(4) assms(5)] assign_property_def)
  moreover have "toFields c (Suc n) (JObj [(k, JNull)]) model = Inr []"
    by simp
  ultimately show ?thesis by blast
qed

theorem undefined_attribute_kept_witness:
  "map_of [(''title'', DFValue ''string'' (JStr ''Hello'')),
           (''subtitle'', DFValue ''text'' JUndefined),
           (''author'', DFReference ''document'' (JStr ''author#7'')),
           (''tags'', DFList [DFReference ''document'' (JStr ''tag#3''),
                              DFReference ''document'' (JStr ''tag#7'')])] ''subtitle''
     = Some (DFValue ''text'' JUndefined)
   \<and> toFields example_cache 1 (JObj (d_attributes article_document)) (Some article_model)
       = Inr [(''title'', DFValue ''string'' (JStr ''Hello'')),
              (''subtitle'', DFValue ''text'' JUndefined),
              (''author'', DFReference ''document'' (JStr ''author#7'')),
              (''tags'', DFList [DFReference ''document'' (JStr ''tag#3''),
                                 DFReference ''document'' (JStr ''tag#7'')])]
   \<and> toFields example_cache 1 (JObj [(''subtitle'', JUndefined)]) (Some article_model)
       = Inr [(''subtitle'', DFValue ''text'' JUndefined)]"
proof -
  let ?fields = "[(''title'', DFValue ''string'' (JStr ''Hello'')),
                  (''subtitle'', DFValue ''text'' JUndefined),
                  (''author'', DFReference ''document'' (JStr ''author#7'')),
                  (''tags'', DFList [DFReference ''document'' (JStr ''tag#3''),
                                     DFReference ''document'' (JStr ''tag#7'')])]"
  have a: "(''subtitle'', JUndefined) \<in> set (d_attributes article_document)"
    by (simp add: article_document_def)
  have d: "distinct (map fst (d_attributes article_document))"
    by code_simp
  have f: "find_model_field (Some article_model) ''subtitle''
             = Inr (Some (NormalizedField (plain_field (Some ''text'') ''subtitle'')))"
    by code_simp
  have t: "field_type (NormalizedField (plain_field (Some ''text'') ''subtitle'')) = Some ''text''"
    by (simp add: plain_field_def)
  have v: "''text'' \<in> set value_field_types"
    by (simp add: value_field_types_def)
  have p: "''subtitle'' \<noteq> ''__proto__''"
    by simp
  have r: "toFields example_cache 1 (JObj (d_attributes article_document)) (Some article_model)
             = Inr ?fields"
    by code_simp
  have "map_of ?fields ''subtitle'' = Some (DFValue ''text'' JUndefined)"
    using undefined_attribute_kept [OF a d f t v p, of example_cache 1] r by blast
  moreover have "toFields example_cache (Suc 0) (JObj [(''subtitle'', JUndefined)])
                   (Some article_model) = Inr [(''subtitle'', DFValue ''text'' JUndefined)]"
    using undefined_attribute_kept [OF a d f t v p, of example_cache 0] by blast
  ultimately show ?thesis using r by simp
qed

section \<open>Properties of the write path\<close>

lemma update_loop_append:
  "update_loop (xs @ ys) acc =
     (case update_loop xs acc of
        Inl e \<Rightarrow> Inl e
      | Inr (Fields acc') \<Rightarrow> update_loop ys acc'
      | Inr (ReturnedModelField mf) \<Rightarrow> Inr (ReturnedModelField mf))"
proof (induction xs acc rule: update_loop.induct)
  case (1 flds)
  then show ?case by simp
next
  case (2 fld fieldPath rest flds)
  then show ?case by (simp split: sum.splits)
next
  case (3 fieldPath modelField rest flds)
  then show ?case by (simp split: option.splits)
next
  case (4 opType rest flds)
  then show ?case by simp
qed

lemma update_loop_keeps_keys:
  "update_loop ops acc = Inr (Fields payload) \<Longrightarrow> k \<in> fst ` set acc \<Longrightarrow>
   k \<in> fst ` set payload"
proof (induction ops acc rule: update_loop.induct)
  case (1 flds)
  then show ?case by simp
next
  case (2 fld fieldPath rest flds)
  then show ?case by (auto split: sum.splits simp: dom_update assign_property_def)
next
  case (3 fieldPath modelField rest flds)
  then show ?case
    by (auto split: option.splits if_splits simp: dom_update assign_property_def)
next
  case (4 opType rest flds)
  then show ?case by simp
qed

lemma update_loop_untouched:
  "update_loop ops acc = Inr (Fields payload) \<Longrightarrow> Some k \<notin> op_key ` set ops \<Longrightarrow>
   map_of payload k = map_of acc k"
proof (induction ops acc rule: update_loop.induct)
  case (1 flds)
  then show ?case by simp
next
  case (2 fld fieldPath rest flds)
  then show ?case
    by (auto split: sum.splits simp: update_conv' op_key_def assign_property_def)
next
  case (3 fieldPath modelField rest flds)
  then show ?case
    by (auto split: option.splits if_splits simp: update_conv' op_key_def assign_property_def)
next
  case (4 opType rest flds)
  then show ?case by simp
qed

lemma unset_cleared:
  assumes "stackbitUpdatesToStrapiFields (pre @ OpUnset fieldPath mf # post) = Inr (Fields payload)"
    and "field_type mf = Some t" and "t \<in> set unset_cleared_types"
    and "path_key fieldPath \<noteq> ''__proto__''"
  shows "path_key fieldPath \<in> fst ` set payload"
    and "Some (path_key fieldPath) \<notin> op_key ` set post \<Longrightarrow>
         map_of payload (path_key fieldPath) = Some (Value JUndefined)"
proof -
  from assms obtain acc where
    r: "update_loop post (AList.update (path_key fieldPath) (Value JUndefined) acc)
          = Inr (Fields payload)"
    by (auto simp: stackbitUpdatesToStrapiFields_def update_loop_append assign_property_def
             split: sum.splits update_result.splits)
  show "path_key fieldPath \<in> fst ` set payload"
    by (rule update_loop_keeps_keys [OF r]) (simp add: dom_update)
  show "map_of payload (path_key fieldPath) = Some (Value JUndefined)"
    if "Some (path_key fieldPath) \<notin> op_key ` set post"
    using update_loop_untouched [OF r that] by (simp add: update_conv')
qed

lemma unset_cleared_alone:
  assumes "field_type mf = Some t" and "t \<in> set unset_cleared_types"
  shows "stackbitUpdatesToStrapiFields [OpUnset fieldPath mf]
           = Inr (Fields (if path_key fieldPath = ''__proto__'' then []
                          else [(path_key fieldPath, Value JUndefined)]))"
  using assms by (simp add: stackbitUpdatesToStrapiFields_def assign_property_def)

lemma unset_throws:
  assumes "field_type mf = Some t" and "t \<in> set unset_throwing_types"
  shows "stackbitUpdatesToStrapiFields (pre @ OpUnset fieldPath mf # post) \<noteq> Inr (Fields payload)"
    and "update_loop pre [] = Inr (Fields acc) \<Longrightarrow>
         stackbitUpdatesToStrapiFields (pre @ OpUnset fieldPath mf # post)
           = Inl (Error (''updating field of type '' @ t @ '' not implemented''))"
proof -
  have s: "update_loop (OpUnset fieldPath mf # post) a
             = Inl (Error (''updating field of type '' @ t @ '' not implemented''))" for a
    using assms by (auto simp: unset_throwing_types_def unset_cleared_types_def)
  show "stackbitUpdatesToStrapiFields (pre @ OpUnset fieldPath mf # post) \<noteq> Inr (Fields payload)"
    by (simp add: stackbitUpdatesToStrapiFields_def update_loop_append s
             del: update_loop.simps split: sum.splits update_result.splits)
  show "stackbitUpdatesToStrapiFields (pre @ OpUnset fieldPath mf # post)
           = Inl (Error (''updating field of type '' @ t @ '' not implemented''))"
    if "update_loop pre [] = Inr (Fields acc)"
    using that
    by (simp add: stackbitUpdatesToStrapiFields_def update_loop_append s del: update_loop.simps)
qed

text \<open>
  Claim C8, as the source has it. An \<^verbatim>\<open>unset\<close> operation on a field of a value
  type, of type \<^verbatim>\<open>reference\<close> or of type \<^verbatim>\<open>image\<close> assigns \<^verbatim>\<open>undefined\<close> to
  the key of its first path segment. For every key but \<^verbatim>\<open>__proto__\<close>: alone it gives
  the payload with that one key, and in a batch that returns a payload the key is
  present, with the value \<^verbatim>\<open>undefined\<close> unless a later operation assigns the same
  key. For the key \<^verbatim>\<open>__proto__\<close> the assignment creates no key. An \<^verbatim>\<open>unset\<close>
  operation on a field of type \<^verbatim>\<open>object\<close>, \<^verbatim>\<open>model\<close>,
  \<^verbatim>\<open>cross-reference\<close> or \<^verbatim>\<open>list\<close> throws: the batch returns no payload, and
  when the operations before it pass the exception is the one of that operation.
\<close>

theorem unset_clears_or_throws:
  assumes "field_type mf = Some t"
  shows "(t \<in> set value_field_types \<or> t = ''reference'' \<or> t = ''image'' \<longrightarrow>
            (path_key fieldPath \<noteq> ''__proto__'' \<longrightarrow>
               stackbitUpdatesToStrapiFields [OpUnset fieldPath mf]
                 = Inr (Fields [(path_key fieldPath, Value JUndefined)])
               \<and> (\<forall>payload.
                    stackbitUpdatesToStrapiFields (pre @ OpUnset fieldPath mf # post)
                      = Inr (Fields payload) \<longrightarrow>
                    path_key fieldPath \<in> fst ` set payload
                    \<and> (Some (path_key fieldPath) \<notin> op_key ` set post \<longrightarrow>
                         map_of payload (path_key fieldPath) = Some (Value JUndefined))))
            \<and> (path_key fieldPath = ''__proto__'' \<longrightarrow>
                 stackbitUpdatesToStrapiFields [OpUnset fieldPath mf] = Inr (Fields [])))
         \<and> (t \<in> {''object'', ''model'', ''cross-reference'', ''list''} \<longrightarrow>
              (\<forall>payload. stackbitUpdatesToStrapiFields (pre @ OpUnset fieldPath mf # post)
                           \<noteq> Inr (Fields payload))
              \<and> (\<forall>acc. update_loop pre [] = Inr (Fields acc) \<longrightarrow>
                     stackbitUpdatesToStrapiFields (pre @ OpUnset fieldPath mf # post)
                       = Inl (Error (''updating field of type '' @ t @ '' not implemented''))))"
proof (intro conjI impI)
  assume "t \<in> set value_field_types \<or> t = ''reference'' \<or> t = ''image''"
  then have c: "t \<in> set unset_cleared_types"
    by (auto simp: value_field_types_def unset_cleared_types_def)
  {
    assume p: "path_key fieldPath \<noteq> ''__proto__''"
    show "stackbitUpdatesToStrapiFields [OpUnset fieldPath mf]
            = Inr (Fields [(path_key fieldPath, Value JUndefined)])"
      using unset_cleared_alone [OF assms c, of fieldPath] p by simp
    show "\<forall>payload.
            stackbitUpdatesToStrapiFields (pre @ OpUnset fieldPath mf # post)
              = Inr (Fields payload) \<longrightarrow>
            path_key fieldPath \<in> fst ` set payload
            \<and> (Some (path_key fieldPath) \<notin> op_key ` set post \<longrightarrow>
                 map_of payload (path_key fieldPath) = Some (Value JUndefined))"
      using unset_cleared [OF _ assms c p] by blast
  }
  {
    assume "path_key fieldPath = ''__proto__''"
    then show "stackbitUpdatesToStrapiFields [OpUnset fieldPath mf] = Inr (Fields [])"
      using unset_cleared_alone [OF assms c, of fieldPath] by simp
  }
next
  assume "t \<in> {''object'', ''model'', ''cross-reference'', ''list''}"
  then have c: "t \<in> set unset_throwing_types"
    by (simp add: unset_throwing_types_def)
  show "\<forall>payload. stackbitUpdatesToStrapiFields (pre @ OpUnset fieldPath mf # post)
                    \<noteq> Inr (Fields payload)"
    using unset_throws(1) [OF assms c] by blast
  show "\<forall>acc. update_loop pre [] = Inr (Fields acc) \<longrightarrow>
              stackbitUpdatesToStrapiFields (pre @ OpUnset fieldPath mf # post)
                = Inl (Error (''updating field of type '' @ t @ '' not implemented''))"
    using unset_throws(2) [OF assms c] by blast
qed

theorem unset_clears_or_throws_witness:
  "stackbitUpdatesToStrapiFields
     [OpSet \<lparr>uof_type = ''string'', uof_value = JStr ''Hello'', uof_refId = JUndefined\<rparr>
            [''title''],
      OpUnset [''subtitle''] (NormalizedField (plain_field (Some ''text'') ''subtitle''))]
     = Inr (Fields [(''title'', Value (JStr ''Hello'')), (''subtitle'', Value JUndefined)])
   \<and> map_of [(''title'', Value (JStr ''Hello'')), (''subtitle'', Value JUndefined)] ''subtitle''
       = Some (Value JUndefined)
   \<and> stackbitUpdatesToStrapiFields
       [OpSet \<lparr>uof_type = ''string'', uof_value = JStr ''Hello'', uof_refId = JUndefined\<rparr>
              [''title''],
        OpUnset [''tags''] (NormalizedField (plain_field (Some ''list'') ''tags''))]
       = Inl (Error ''updating field of type list not implemented'')"
proof -
  let ?set = "OpSet \<lparr>uof_type = ''string'', uof_value = JStr ''Hello'', uof_refId = JUndefined\<rparr>
                    [''title'']"
  let ?payload = "[(''title'', Value (JStr ''Hello'')), (''subtitle'', Value JUndefined)]"
  have t1: "field_type (NormalizedField (plain_field (Some ''text'') ''subtitle'')) = Some ''text''"
    by (simp add: plain_field_def)
  have t2: "''text'' \<in> set value_field_types"
    by (simp add: value_field_types_def)
  have r: "stackbitUpdatesToStrapiFields
             ([?set] @ OpUnset [''subtitle''] (NormalizedField (plain_field (Some ''text'') ''subtitle''))
                # [])
             = Inr (Fields ?payload)"
    by code_simp
  have k: "path_key [''subtitle''] = ''subtitle''"
    by (simp add: path_key_def)
  have l1: "field_type (NormalizedField (plain_field (Some ''list'') ''tags'')) = Some ''list''"
    by (simp add: plain_field_def)
  have p: "update_loop [?set] [] = Inr (Fields [(''title'', Value (JStr ''Hello''))])"
    by code_simp
  have "map_of ?payload ''subtitle'' = Some (Value JUndefined)"
    using unset_clears_or_throws [OF t1, of "[''subtitle'']" "[?set]" "[]"] t2 r k
    by simp
  moreover
  have "stackbitUpdatesToStrapiFields
          ([?set] @ OpUnset [''tags''] (NormalizedField (plain_field (Some ''list'') ''tags'')) # [])
          = Inl (Error (''updating field of type '' @ ''list'' @ '' not implemented''))"
    using unset_clears_or_throws [OF l1, of "[''tags'']" "[?set]" "[]"] p
    by simp
  ultimately show ?thesis using r by simp
qed

text \<open>The claim as written fails for \<^verbatim>\<open>image\<close>, which the conversion of
  \<^verbatim>\<open>set\<close> values counts among the types it refuses: unsetting an image field does
  not throw, it clears the key.\<close>

theorem unset_image_counterexample:
  "''image'' \<in> set convert_throwing_types
   \<and> stackbitUpdatesToStrapiFields
       [OpUnset [''cover''] (NormalizedField (plain_field (Some ''image'') ''cover''))]
     = Inr (Fields [(''cover'', Value JUndefined)])"
  by code_simp

end
